theory Spec2Isabelle
  imports Complex_Main
begin

section \<open>Run-time numbers\<close>

text \<open>
  The fields that \<^verbatim>\<open>types.ts\<close> and \<^verbatim>\<open>ComicBookPage.ts\<close> declare as \<^verbatim>\<open>number\<close>
  hold, at run time, a double, \<^verbatim>\<open>NaN\<close>, one of the infinities, or (after the unchecked
  cast of \<^verbatim>\<open>JSON.parse(...) as CanvasSize\<close>) \<^verbatim>\<open>null\<close>. Finite doubles are modelled as
  exact rationals: an operator returns the exact sum, product or quotient where the
  source returns the nearest double, it never overflows, and zero carries no sign. What
  is proved below of a finite result is therefore proved of the exact value; nothing is
  concluded from two results being equal up to rounding. Every arithmetic operator and
  every comparison of the source first applies \<open>ToNumber\<close>, which turns \<^verbatim>\<open>null\<close> into 0.
\<close>

datatype number = Null | NaN | NegInf | Fin rat | PosInf

fun ToNumber :: "number \<Rightarrow> number" where
  "ToNumber Null = Fin 0"
| "ToNumber v = v"

text \<open>The operators on numbers proper (no \<open>Null\<close> reaches them).\<close>

fun neg_num :: "number \<Rightarrow> number" where
  "neg_num (Fin a) = Fin (- a)"
| "neg_num PosInf = NegInf"
| "neg_num NegInf = PosInf"
| "neg_num _ = NaN"

fun add_num :: "number \<Rightarrow> number \<Rightarrow> number" where
  "add_num (Fin a) (Fin b) = Fin (a + b)"
| "add_num (Fin a) PosInf = PosInf"
| "add_num (Fin a) NegInf = NegInf"
| "add_num PosInf (Fin b) = PosInf"
| "add_num PosInf PosInf = PosInf"
| "add_num NegInf (Fin b) = NegInf"
| "add_num NegInf NegInf = NegInf"
| "add_num _ _ = NaN"

definition inf_of_sign :: "rat \<Rightarrow> number" where
  "inf_of_sign a = (if a = 0 then NaN else if 0 < a then PosInf else NegInf)"

fun mul_num :: "number \<Rightarrow> number \<Rightarrow> number" where
  "mul_num (Fin a) (Fin b) = Fin (a * b)"
| "mul_num (Fin a) PosInf = inf_of_sign a"
| "mul_num (Fin a) NegInf = inf_of_sign (- a)"
| "mul_num PosInf (Fin b) = inf_of_sign b"
| "mul_num NegInf (Fin b) = inf_of_sign (- b)"
| "mul_num PosInf PosInf = PosInf"
| "mul_num PosInf NegInf = NegInf"
| "mul_num NegInf PosInf = NegInf"
| "mul_num NegInf NegInf = PosInf"
| "mul_num _ _ = NaN"

fun div_num :: "number \<Rightarrow> number \<Rightarrow> number" where
  "div_num (Fin a) (Fin b) = (if b = 0 then inf_of_sign a else Fin (a / b))"
| "div_num (Fin a) PosInf = Fin 0"
| "div_num (Fin a) NegInf = Fin 0"
| "div_num PosInf (Fin b) = (if 0 \<le> b then PosInf else NegInf)"
| "div_num NegInf (Fin b) = (if 0 \<le> b then NegInf else PosInf)"
| "div_num _ _ = NaN"

fun lt_num :: "number \<Rightarrow> number \<Rightarrow> bool" where
  "lt_num (Fin a) (Fin b) = (a < b)"
| "lt_num (Fin a) PosInf = True"
| "lt_num NegInf (Fin b) = True"
| "lt_num NegInf PosInf = True"
| "lt_num _ _ = False"

fun min_num :: "number \<Rightarrow> number \<Rightarrow> number" where
  "min_num NaN _ = NaN"
| "min_num _ NaN = NaN"
| "min_num a b = (if lt_num b a then b else a)"

text \<open>The operators as the source applies them: \<^verbatim>\<open>-a\<close>, \<^verbatim>\<open>a + b\<close>, \<^verbatim>\<open>a - b\<close>,
  \<^verbatim>\<open>a * b\<close>, \<^verbatim>\<open>a / b\<close>, \<^verbatim>\<open>a < b\<close>, \<^verbatim>\<open>a > b\<close>, \<^verbatim>\<open>a >= b\<close> and \<^verbatim>\<open>Math.min\<close>.
  A comparison with \<^verbatim>\<open>NaN\<close> on either side is false.\<close>

definition js_neg :: "number \<Rightarrow> number" where
  "js_neg a = neg_num (ToNumber a)"

definition js_add :: "number \<Rightarrow> number \<Rightarrow> number" where
  "js_add a b = add_num (ToNumber a) (ToNumber b)"

definition js_sub :: "number \<Rightarrow> number \<Rightarrow> number" where
  "js_sub a b = add_num (ToNumber a) (neg_num (ToNumber b))"

definition js_mul :: "number \<Rightarrow> number \<Rightarrow> number" where
  "js_mul a b = mul_num (ToNumber a) (ToNumber b)"

definition js_div :: "number \<Rightarrow> number \<Rightarrow> number" where
  "js_div a b = div_num (ToNumber a) (ToNumber b)"

definition js_lt :: "number \<Rightarrow> number \<Rightarrow> bool" where
  "js_lt a b = lt_num (ToNumber a) (ToNumber b)"

definition js_gt :: "number \<Rightarrow> number \<Rightarrow> bool" where
  "js_gt a b = lt_num (ToNumber b) (ToNumber a)"

definition js_ge :: "number \<Rightarrow> number \<Rightarrow> bool" where
  "js_ge a b = (ToNumber a \<noteq> NaN \<and> ToNumber b \<noteq> NaN \<and> \<not> lt_num (ToNumber a) (ToNumber b))"

definition Math_min :: "number list \<Rightarrow> number" where
  "Math_min vs = foldl min_num PosInf (map ToNumber vs)"

section \<open>Constants and data of ComicBookPage.ts\<close>

definition panningFactor :: number where
  "panningFactor = Fin (7 / 4)"

definition focusDuration :: number where
  "focusDuration = Fin 750"

definition MAX_ZOOM_VALUE :: number where
  "MAX_ZOOM_VALUE = Fin 3"

definition framePadding :: number where
  "framePadding = Fin 10"

text \<open>
  \<^verbatim>\<open>CanvasSize\<close> and \<^verbatim>\<open>ComicFrame extends CanvasSize\<close> of \<^verbatim>\<open>types.ts\<close>. The field
  \<^verbatim>\<open>top\<close> is written \<open>top'\<close>. \<^verbatim>\<open>ComicFramePosition\<close> has a width and a height too, so it
  is a structural subtype of \<^verbatim>\<open>CanvasSize\<close> and is declared as its extension; a keyframe
  handed to the tween engine is a \<^verbatim>\<open>ComicFrame\<close> spread into an object with a duration
  and, in the first phase only, an opacity.
\<close>

record CanvasSize =
  height :: number
  width :: number

record ComicFrame = CanvasSize +
  left :: number
  top' :: number

record Point =
  x :: number
  y :: number

record ComicFramePosition = CanvasSize +
  topLeft :: Point
  bottomRight :: Point

record AnimeAnimParams = ComicFrame +
  duration :: number
  opacity :: "number option"

text \<open>
  The tween engine is an external collaborator: the model records the calls made to it,
  \<^verbatim>\<open>animejs.remove(img)\<close> and \<^verbatim>\<open>animejs({targets: img, keyframes, easing})\<close>.
\<close>

datatype anime_call = Remove | Animate "AnimeAnimParams list" string

text \<open>
  The object's state. \<open>clientWidth\<close> and \<open>clientHeight\<close> are the getters that read the
  size of the container element; the private fields \<^verbatim>\<open>_areas\<close>, \<^verbatim>\<open>_currentFrame\<close>,
  \<^verbatim>\<open>_canvasSize\<close> and \<^verbatim>\<open>_duration\<close> carry the prefix \<open>p_\<close>, and \<open>None\<close> is
  \<^verbatim>\<open>undefined\<close>. \<^verbatim>\<open>_canvasSize\<close> is assigned by the constructor before any method
  can run. Log output, and the instance label that only log messages show, are left out.
\<close>

record ComicBookPage =
  clientWidth :: number
  clientHeight :: number
  p_areas :: "(string \<rightharpoonup> ComicFrame) option"
  p_currentFrame :: "ComicFrame option"
  p_canvasSize :: CanvasSize
  p_duration :: "number option"
  anime :: "anime_call list"

section \<open>Geometry\<close>

definition ensureComicFrame :: "ComicBookPage \<Rightarrow> ComicFrame option \<Rightarrow> ComicFrame" where
  "ensureComicFrame this frame =
     (case frame of
        None \<Rightarrow> \<lparr>height = height (p_canvasSize this), width = width (p_canvasSize this),
                  left = Fin 0, top' = Fin 0\<rparr>
      | Some f \<Rightarrow> f)"

definition makeFramePosition :: "ComicFrame \<Rightarrow> ComicFramePosition" where
  "makeFramePosition frame =
     \<lparr>height = height frame, width = width frame,
      topLeft = \<lparr>x = left frame, y = top' frame\<rparr>,
      bottomRight = \<lparr>x = js_add (left frame) (width frame),
                     y = js_add (top' frame) (height frame)\<rparr>\<rparr>"

definition shouldDoVerticalPanning :: "ComicBookPage \<Rightarrow> ComicFramePosition \<Rightarrow> bool" where
  "shouldDoVerticalPanning this framePosition =
     (js_ge (js_div (height framePosition) (width framePosition)) panningFactor
      \<and> js_gt (height framePosition) (js_mul (clientHeight this) panningFactor))"

definition shouldDoHorizontalPanning :: "ComicBookPage \<Rightarrow> ComicFramePosition \<Rightarrow> bool" where
  "shouldDoHorizontalPanning this framePosition =
     (js_ge (js_div (width framePosition) (height framePosition)) panningFactor
      \<and> js_gt (width framePosition) (js_mul (clientWidth this) panningFactor))"

text \<open>The local \<^verbatim>\<open>scale\<close> of \<^verbatim>\<open>calcFramePositionAndSize\<close>.\<close>

definition frameScale :: "ComicBookPage \<Rightarrow> ComicFramePosition \<Rightarrow> number" where
  "frameScale this frame =
     Math_min [MAX_ZOOM_VALUE,
               js_div (js_sub (clientWidth this) (js_mul framePadding (Fin 2))) (width frame),
               js_div (js_sub (clientHeight this) (js_mul framePadding (Fin 2))) (height frame)]"

text \<open>The locals \<^verbatim>\<open>xCentering\<close> and \<^verbatim>\<open>yCentering\<close>: initialised to 0 and assigned
  when the scaled frame is smaller than the padded container.\<close>

definition centering :: "number \<Rightarrow> number \<Rightarrow> number" where
  "centering client scaledFrame =
     (if js_lt scaledFrame client then js_div (js_sub client scaledFrame) (Fin 2) else Fin 0)"

definition calcFramePositionAndSize :: "ComicBookPage \<Rightarrow> ComicFramePosition \<Rightarrow> ComicFrame" where
  "calcFramePositionAndSize this frame =
     (let clientWidth' = js_sub (clientWidth this) (js_mul framePadding (Fin 2));
          clientHeight' = js_sub (clientHeight this) (js_mul framePadding (Fin 2));
          imageWidth = width (p_canvasSize this);
          imageHeight = height (p_canvasSize this);
          frameWidth = width frame;
          frameHeight = height frame;
          frameX0 = x (topLeft frame);
          frameY0 = y (topLeft frame);
          scale = frameScale this frame;
          scaledImageWidth = js_mul imageWidth scale;
          scaledImageHeight = js_mul imageHeight scale;
          scaledFrameX0 = js_neg (js_mul frameX0 scale);
          scaledFrameY0 = js_neg (js_mul frameY0 scale);
          scaledFrameWidth = js_mul frameWidth scale;
          xCentering = centering clientWidth' scaledFrameWidth;
          scaledFrameHeight = js_mul frameHeight scale;
          yCentering = centering clientHeight' scaledFrameHeight
      in \<lparr>height = scaledImageHeight, width = scaledImageWidth,
          left = js_add (js_add xCentering scaledFrameX0) framePadding,
          top' = js_add (js_add yCentering scaledFrameY0) framePadding\<rparr>)"

section \<open>Keyframes and the animation driver\<close>

text \<open>
  The branch of \<^verbatim>\<open>renderCurrentComicFrame\<close> that fills \<^verbatim>\<open>panFramePosition\<close> and
  \<^verbatim>\<open>finalFramePosition\<close>; \<open>None\<close> when both stay undefined. The assignment
  \<^verbatim>\<open>topLeft.y += h - w + framePadding\<close> changes that coordinate only.
\<close>

definition panFramePositions ::
  "ComicBookPage \<Rightarrow> ComicFrame \<Rightarrow> (ComicFramePosition \<times> ComicFramePosition) option" where
  "panFramePositions this currentFrame =
     (let framePosition = makeFramePosition currentFrame
      in if shouldDoVerticalPanning this framePosition then
           (let topHalfFrame = currentFrame\<lparr>height := width currentFrame\<rparr>;
                panFramePosition = makeFramePosition topHalfFrame;
                finalFramePosition = makeFramePosition topHalfFrame;
                tl = topLeft finalFramePosition
            in Some (panFramePosition,
                 finalFramePosition\<lparr>topLeft := tl\<lparr>y := js_add (y tl)
                   (js_add (js_sub (height currentFrame) (width currentFrame)) framePadding)\<rparr>\<rparr>))
         else if shouldDoHorizontalPanning this framePosition then
           (let leftHalfFrame = currentFrame\<lparr>width := height currentFrame\<rparr>;
                panFramePosition = makeFramePosition leftHalfFrame;
                finalFramePosition = makeFramePosition leftHalfFrame;
                tl = topLeft finalFramePosition
            in Some (panFramePosition,
                 finalFramePosition\<lparr>topLeft := tl\<lparr>x := js_add (x tl)
                   (js_add (js_sub (width currentFrame) (height currentFrame)) framePadding)\<rparr>\<rparr>))
         else None)"

text \<open>An object literal \<^verbatim>\<open>{...frame, duration, opacity}\<close>.\<close>

definition spread :: "ComicFrame \<Rightarrow> number \<Rightarrow> number option \<Rightarrow> AnimeAnimParams" where
  "spread f d opac =
     \<lparr>height = height f, width = width f, left = left f, top' = top' f,
      duration = d, opacity = opac\<rparr>"

text \<open>\<^verbatim>\<open>v == undefined\<close> holds of \<^verbatim>\<open>undefined\<close> and of \<^verbatim>\<open>null\<close>; \<^verbatim>\<open>a ?? b\<close> is
  \<open>b\<close> for exactly these.\<close>

definition is_nullish :: "number option \<Rightarrow> bool" where
  "is_nullish v = (v = None \<or> v = Some Null)"

definition nullish_coalescing :: "number option \<Rightarrow> number \<Rightarrow> number" where
  "nullish_coalescing a b = (case a of None \<Rightarrow> b | Some Null \<Rightarrow> b | Some v \<Rightarrow> v)"

text \<open>
  The list \<^verbatim>\<open>keyframes\<close> that \<^verbatim>\<open>renderCurrentComicFrame\<close> builds. In the last duration,
  \<^verbatim>\<open>this._duration ?? 0 - 2 * focusDuration\<close>, the subtraction binds tighter than
  \<^verbatim>\<open>??\<close>: the right operand of \<^verbatim>\<open>??\<close> is \<^verbatim>\<open>0 - 2 * focusDuration\<close>.
\<close>

definition keyframes :: "ComicBookPage \<Rightarrow> ComicFrame \<Rightarrow> AnimeAnimParams list" where
  "keyframes this currentFrame =
     (let framePosition = makeFramePosition currentFrame
      in spread (calcFramePositionAndSize this framePosition) focusDuration (Some (Fin 1))
         # (case panFramePositions this currentFrame of
              None \<Rightarrow> []
            | Some (panFramePosition, finalFramePosition) \<Rightarrow>
                [spread (calcFramePositionAndSize this panFramePosition) focusDuration None,
                 spread (calcFramePositionAndSize this finalFramePosition)
                   (nullish_coalescing (p_duration this)
                      (js_sub (Fin 0) (js_mul (Fin 2) focusDuration))) None]))"

definition easing :: string where
  "easing = ''cubicBezier(0.455, 0.030, 0.515, 0.955)''"

definition renderCurrentComicFrame :: "ComicBookPage \<Rightarrow> ComicBookPage" where
  "renderCurrentComicFrame this =
     (case p_currentFrame this of
        None \<Rightarrow> this
      | Some currentFrame \<Rightarrow>
          if is_nullish (p_duration this) then this
          else this\<lparr>anime := anime this @ [Remove, Animate (keyframes this currentFrame) easing]\<rparr>)"

definition onResize :: "ComicBookPage \<Rightarrow> ComicBookPage" where
  "onResize this = renderCurrentComicFrame this"

section \<open>Geometry extraction from the document\<close>

text \<open>
  What the component reads of the host document: the image element with its id, its
  inline style and its \<^verbatim>\<open>data\<close> attribute, and the \<^verbatim>\<open>div\<close> children of the body with
  their ids and inline styles. The text of the attribute is represented by the JSON it
  denotes, an object with the members \<^verbatim>\<open>height\<close> and \<^verbatim>\<open>width\<close>; \<open>None\<close> is an absent
  (or empty) attribute. \<^verbatim>\<open>JSON.stringify\<close> writes a number that is not finite as
  \<^verbatim>\<open>null\<close>, and \<^verbatim>\<open>JSON.parse\<close> reads it back as \<^verbatim>\<open>null\<close>.
\<close>

datatype json = JNull | JNumber rat

record json_CanvasSize =
  json_height :: json
  json_width :: json

record HTMLElement =
  elem_id :: string
  style :: "(string \<times> string) list"

record HTMLImageElement = HTMLElement +
  dataset_CanvasSize :: "json_CanvasSize option"

record Document =
  comicImg :: HTMLImageElement
  body_divs :: "HTMLElement list"

fun json_of_number :: "number \<Rightarrow> json" where
  "json_of_number (Fin q) = JNumber q"
| "json_of_number _ = JNull"

fun number_of_json :: "json \<Rightarrow> number" where
  "number_of_json (JNumber q) = Fin q"
| "number_of_json JNull = Null"

definition JSON_stringify :: "CanvasSize \<Rightarrow> json_CanvasSize" where
  "JSON_stringify c =
     \<lparr>json_height = json_of_number (height c), json_width = json_of_number (width c)\<rparr>"

definition JSON_parse :: "json_CanvasSize \<Rightarrow> CanvasSize" where
  "JSON_parse j =
     \<lparr>height = number_of_json (json_height j), width = number_of_json (json_width j)\<rparr>"

text \<open>\<^verbatim>\<open>style.getPropertyValue(key)\<close>: the empty string when the property is not set.\<close>

definition getPropertyValue :: "(string \<times> string) list \<Rightarrow> string \<Rightarrow> string" where
  "getPropertyValue st key = (case map_of st key of None \<Rightarrow> [] | Some v \<Rightarrow> v)"

text \<open>\<^verbatim>\<open>value.replace(/px$/, '')\<close>.\<close>

definition replace_px :: "string \<Rightarrow> string" where
  "replace_px s =
     (case rev s of
        c # d # r \<Rightarrow> if c = CHR ''x'' \<and> d = CHR ''p'' then rev r else s
      | _ \<Rightarrow> s)"

text \<open>
  \<^verbatim>\<open>parseInt(s, 10)\<close>: leading white space is skipped, a sign is read, then the longest
  run of decimal digits; \<^verbatim>\<open>NaN\<close> when there is no digit. The integer read becomes the
  nearest double, ties to even: itself below \<open>2 ^ 53\<close>, an infinity when the rounded value
  reaches \<open>2 ^ 1024\<close>. Strings are lists of ASCII characters: the white space of Unicode
  that JavaScript skips as well is not represented, and where the language lets an
  implementation read the digits after the twentieth as 0, all digits are read.
\<close>

function bit_length :: "int \<Rightarrow> nat" where
  "bit_length n = (if n \<le> 0 then 0 else Suc (bit_length (n div 2)))"
  by pat_completeness auto
termination
  by (relation "measure nat") auto

declare bit_length.simps [simp del]

definition nearest_double :: "bool \<Rightarrow> int \<Rightarrow> number" where
  "nearest_double negative m =
     (if m < 2 ^ 53 then Fin (of_int (if negative then - m else m))
      else
        (let e = bit_length m - 53;
             q = m div 2 ^ e;
             r = m mod 2 ^ e;
             q' = (if 2 ^ e < 2 * r \<or> (2 * r = 2 ^ e \<and> odd q) then q + 1 else q);
             v = q' * 2 ^ e
         in if 2 ^ 1024 \<le> v then (if negative then NegInf else PosInf)
            else Fin (of_int (if negative then - v else v))))"

definition isWhiteSpace :: "char \<Rightarrow> bool" where
  "isWhiteSpace c = (of_char c \<in> {9, 10, 11, 12, 13, 32 :: nat})"

definition isDigit :: "char \<Rightarrow> bool" where
  "isDigit c = (48 \<le> (of_char c :: nat) \<and> (of_char c :: nat) \<le> 57)"

definition digitsValue :: "string \<Rightarrow> int" where
  "digitsValue ds = foldl (\<lambda>n c. 10 * n + (of_char c - 48)) 0 ds"

definition parseInt :: "string \<Rightarrow> number" where
  "parseInt s =
     (let t = dropWhile isWhiteSpace s;
          negative = (t \<noteq> [] \<and> hd t = CHR ''-'');
          u = (if t \<noteq> [] \<and> (hd t = CHR ''+'' \<or> hd t = CHR ''-'') then tl t else t);
          z = takeWhile isDigit u
      in if z = [] then NaN else nearest_double negative (digitsValue z))"

text \<open>The assignment \<^verbatim>\<open>frame[key] = v\<close> for the keys the two loops use.\<close>

definition setSize :: "string \<Rightarrow> number \<Rightarrow> CanvasSize \<Rightarrow> CanvasSize" where
  "setSize key v frame =
     (if key = ''height'' then frame\<lparr>height := v\<rparr>
      else if key = ''width'' then frame\<lparr>width := v\<rparr>
      else frame)"

definition setField :: "string \<Rightarrow> number \<Rightarrow> ComicFrame \<Rightarrow> ComicFrame" where
  "setField key v frame =
     (if key = ''height'' then frame\<lparr>height := v\<rparr>
      else if key = ''width'' then frame\<lparr>width := v\<rparr>
      else if key = ''left'' then frame\<lparr>left := v\<rparr>
      else if key = ''top'' then frame\<lparr>top' := v\<rparr>
      else frame)"

definition extractComicFrame :: "HTMLElement \<Rightarrow> ComicFrame" where
  "extractComicFrame area =
     foldl (\<lambda>frame key.
              let v = getPropertyValue (style area) key
              in if v = [] then frame else setField key (parseInt (replace_px v)) frame)
       \<lparr>height = Fin 0, width = Fin 0, left = Fin 0, top' = Fin 0\<rparr>
       [''height'', ''width'', ''left'', ''top'']"

text \<open>\<^verbatim>\<open>extractCanvasSize\<close> returns the size and leaves the image element with its cache
  attribute written.\<close>

definition extractCanvasSize :: "HTMLImageElement \<Rightarrow> CanvasSize \<times> HTMLImageElement" where
  "extractCanvasSize img =
     (case dataset_CanvasSize img of
        Some j \<Rightarrow> (JSON_parse j, img)
      | None \<Rightarrow>
          (let frame =
                 foldl (\<lambda>frame key.
                          let v = getPropertyValue (style img) key
                          in if v = [] then frame else setSize key (parseInt (replace_px v)) frame)
                   \<lparr>height = Fin 0, width = Fin 0\<rparr>
                   [''height'', ''width'']
           in (frame, img\<lparr>dataset_CanvasSize := Some (JSON_stringify frame)\<rparr>)))"

section \<open>The frame registry and the activation entry point\<close>

text \<open>\<^verbatim>\<open>toLocaleLowerCase\<close> on ASCII strings: the letters A to Z are lowered, every other
  character is kept. Ids with letters outside ASCII, which the method lowers by the
  rules of the host's locale, are not represented.\<close>

definition toLowerChar :: "char \<Rightarrow> char" where
  "toLowerChar c =
     (if 65 \<le> (of_char c :: nat) \<and> (of_char c :: nat) \<le> 90
      then char_of ((of_char c :: nat) + 32) else c)"

definition toLocaleLowerCase :: "string \<Rightarrow> string" where
  "toLocaleLowerCase s = map toLowerChar s"

text \<open>The two \<^verbatim>\<open>set\<close> calls that enter one element under its id and under \<^verbatim>\<open>#\<close>id.\<close>

definition setArea :: "string \<Rightarrow> ComicFrame \<Rightarrow> (string \<rightharpoonup> ComicFrame) \<Rightarrow> (string \<rightharpoonup> ComicFrame)" where
  "setArea i frame m = (m(i \<mapsto> frame))(CHR ''#'' # i \<mapsto> frame)"

text \<open>The getter \<^verbatim>\<open>comicAreas\<close>: the registry, and the object with \<^verbatim>\<open>_areas\<close> filled.\<close>

definition comicAreas ::
  "Document \<Rightarrow> ComicBookPage \<Rightarrow> (string \<rightharpoonup> ComicFrame) \<times> ComicBookPage" where
  "comicAreas doc this =
     (case p_areas this of
        Some areas \<Rightarrow> (areas, this)
      | None \<Rightarrow>
          (let canvasFrame = ensureComicFrame this None;
               areas = foldl (\<lambda>m area. setArea (elem_id area) (extractComicFrame area) m)
                         (setArea (elem_id (comicImg doc)) canvasFrame Map.empty)
                         (body_divs doc)
           in (areas, this\<lparr>p_areas := Some areas\<rparr>)))"

definition SetCurrentFrame :: "Document \<Rightarrow> string \<Rightarrow> number \<Rightarrow> ComicBookPage \<Rightarrow> ComicBookPage" where
  "SetCurrentFrame doc i d this =
     (let (areas, this1) = comicAreas doc this
      in if areas (toLocaleLowerCase i) \<noteq> None then
           (let (areas2, this2) = comicAreas doc this1
            in renderCurrentComicFrame
                 (this2\<lparr>p_currentFrame := areas2 (toLocaleLowerCase i), p_duration := Some d\<rparr>))
         else this1)"

section \<open>Observations and concrete inputs\<close>

text \<open>The keyframes of the last call that started an animation.\<close>

definition lastKeyframes :: "ComicBookPage \<Rightarrow> AnimeAnimParams list" where
  "lastKeyframes this =
     (case rev (anime this) of Animate kfs e # _ \<Rightarrow> kfs | _ \<Rightarrow> [])"

text \<open>A canvas of 1000 by 2000 with the frame \<^verbatim>\<open>{left: 0, top: 0, width: 500, height: 1750}\<close>
  current, in a container of 500 by 500, activated for a duration \<open>d\<close>.\<close>

definition tallFrame :: ComicFrame where
  "tallFrame = \<lparr>height = Fin 1750, width = Fin 500, left = Fin 0, top' = Fin 0\<rparr>"

definition tallPage :: "number \<Rightarrow> ComicBookPage" where
  "tallPage d =
     \<lparr>clientWidth = Fin 500, clientHeight = Fin 500, p_areas = None,
      p_currentFrame = Some tallFrame,
      p_canvasSize = \<lparr>height = Fin 2000, width = Fin 1000\<rparr>,
      p_duration = Some d, anime = []\<rparr>"

text \<open>The same canvas and container before any activation.\<close>

definition freshPage :: ComicBookPage where
  "freshPage =
     \<lparr>clientWidth = Fin 500, clientHeight = Fin 500, p_areas = None,
      p_currentFrame = None,
      p_canvasSize = \<lparr>height = Fin 2000, width = Fin 1000\<rparr>,
      p_duration = None, anime = []\<rparr>"

text \<open>A frame of 400 by 700 in a container of height 400: the ratio is 1.75 and the
  height is 400 * 1.75.\<close>

definition boundaryFrame :: ComicFrame where
  "boundaryFrame = \<lparr>height = Fin 700, width = Fin 400, left = Fin 0, top' = Fin 0\<rparr>"

definition boundaryPage :: ComicBookPage where
  "boundaryPage = freshPage\<lparr>clientWidth := Fin 400, clientHeight := Fin 400\<rparr>"

text \<open>A document whose one frame element has the id \<^verbatim>\<open>Frame1\<close>, and one whose frame
  element has the id \<^verbatim>\<open>frame1\<close>.\<close>

definition pageImg :: HTMLImageElement where
  "pageImg =
     \<lparr>elem_id = ''page'', style = [(''height'', ''2000px''), (''width'', ''1000px'')],
      dataset_CanvasSize = None\<rparr>"

definition frameStyle :: "(string \<times> string) list" where
  "frameStyle =
     [(''left'', ''0px''), (''top'', ''0px''), (''width'', ''500px''), (''height'', ''1750px'')]"

definition upperDoc :: Document where
  "upperDoc = \<lparr>comicImg = pageImg, body_divs = [\<lparr>elem_id = ''Frame1'', style = frameStyle\<rparr>]\<rparr>"

definition lowerDoc :: Document where
  "lowerDoc = \<lparr>comicImg = pageImg, body_divs = [\<lparr>elem_id = ''frame1'', style = frameStyle\<rparr>]\<rparr>"

text \<open>The same frame in a container of height 399, and a frame of 500 by 500 at (30, 40)
  in a container of 520 by 520, which it fills exactly once the padding is taken off.\<close>

definition lowPage :: ComicBookPage where
  "lowPage = freshPage\<lparr>clientWidth := Fin 400, clientHeight := Fin 399\<rparr>"

definition exactFrame :: ComicFrame where
  "exactFrame = \<lparr>height = Fin 500, width = Fin 500, left = Fin 30, top' = Fin 40\<rparr>"

definition exactPage :: ComicBookPage where
  "exactPage = freshPage\<lparr>clientWidth := Fin 520, clientHeight := Fin 520\<rparr>"

text \<open>The object after \<^verbatim>\<open>SetCurrentFrame("#frame1", 2000)\<close> on the second document.\<close>

definition activePage :: ComicBookPage where
  "activePage = SetCurrentFrame lowerDoc ''#frame1'' (Fin 2000) freshPage"

text \<open>That object once the container has become 520 wide and 3520 high.\<close>

definition resizedPage :: ComicBookPage where
  "resizedPage = activePage\<lparr>clientWidth := Fin 520, clientHeight := Fin 3520\<rparr>"

section \<open>Facts about run-time numbers\<close>

lemmas number_defs = js_neg_def js_add_def js_sub_def js_mul_def js_div_def js_lt_def js_gt_def
  js_ge_def Math_min_def inf_of_sign_def panningFactor_def focusDuration_def MAX_ZOOM_VALUE_def
  framePadding_def

lemma lt_num_irrefl: "\<not> lt_num a a"
  by (cases a) simp_all

lemma Math_min3_bound: "\<not> js_gt (Math_min [Fin 3, a, b]) (Fin 3)"
  by (cases a; cases b) (auto simp add: Math_min_def js_gt_def)

lemma padded: "js_sub c (js_mul framePadding (Fin 2)) = js_sub c (Fin 20)"
  by (simp add: number_defs)

section \<open>Position and scale\<close>

lemma calc_width:
  "width (calcFramePositionAndSize this fp) = js_mul (width (p_canvasSize this)) (frameScale this fp)"
  by (simp add: calcFramePositionAndSize_def Let_def)

lemma calc_height:
  "height (calcFramePositionAndSize this fp) = js_mul (height (p_canvasSize this)) (frameScale this fp)"
  by (simp add: calcFramePositionAndSize_def Let_def)

lemma calc_left:
  "left (calcFramePositionAndSize this fp) =
     js_add (js_add (centering (js_sub (clientWidth this) (Fin 20))
                               (js_mul (width fp) (frameScale this fp)))
                    (js_neg (js_mul (x (topLeft fp)) (frameScale this fp)))) (Fin 10)"
  by (simp add: calcFramePositionAndSize_def Let_def padded) (simp add: framePadding_def)

lemma calc_top:
  "top' (calcFramePositionAndSize this fp) =
     js_add (js_add (centering (js_sub (clientHeight this) (Fin 20))
                               (js_mul (height fp) (frameScale this fp)))
                    (js_neg (js_mul (y (topLeft fp)) (frameScale this fp)))) (Fin 10)"
  by (simp add: calcFramePositionAndSize_def Let_def padded) (simp add: framePadding_def)

lemma frameScale_finite:
  assumes "clientWidth this = Fin cw" "clientHeight this = Fin ch"
    and "width fp = Fin fw" "height fp = Fin fh" "fw \<noteq> 0" "fh \<noteq> 0"
  shows "frameScale this fp = Fin (min 3 (min ((cw - 20) / fw) ((ch - 20) / fh)))"
  using assms by (auto simp add: frameScale_def number_defs min_def)

lemma centering_same: "centering a a = Fin 0"
  by (simp add: centering_def js_lt_def lt_num_irrefl)

text \<open>
  Claim C5. The scale that \<^verbatim>\<open>calcFramePositionAndSize\<close> applies to the image is
  \<^verbatim>\<open>Math.min(3, (clientWidth - 20) / frameWidth, (clientHeight - 20) / frameHeight)\<close>, for
  every frame and container, and it is never greater than 3. Where the sizes are finite
  and the frame's width and height are not zero, this is the least of the three
  rationals.
\<close>

theorem scale_is_capped_minimum:
  "frameScale this fp =
     Math_min [Fin 3, js_div (js_sub (clientWidth this) (Fin 20)) (width fp),
               js_div (js_sub (clientHeight this) (Fin 20)) (height fp)]
   \<and> width (calcFramePositionAndSize this fp)
       = js_mul (width (p_canvasSize this)) (frameScale this fp)
   \<and> \<not> js_gt (frameScale this fp) (Fin 3)
   \<and> (clientWidth this = Fin cw \<longrightarrow> clientHeight this = Fin ch \<longrightarrow>
      width fp = Fin fw \<longrightarrow> height fp = Fin fh \<longrightarrow> fw \<noteq> 0 \<longrightarrow> fh \<noteq> 0 \<longrightarrow>
      frameScale this fp = Fin (min 3 (min ((cw - 20) / fw) ((ch - 20) / fh))))"
proof -
  have eq: "frameScale this fp =
     Math_min [Fin 3, js_div (js_sub (clientWidth this) (Fin 20)) (width fp),
               js_div (js_sub (clientHeight this) (Fin 20)) (height fp)]"
    by (simp add: frameScale_def padded MAX_ZOOM_VALUE_def)
  have "\<not> js_gt (frameScale this fp) (Fin 3)"
    unfolding eq by (rule Math_min3_bound)
  with eq calc_width frameScale_finite show ?thesis by blast
qed

theorem scale_is_capped_minimum_witness:
  "clientWidth (tallPage (Fin 2000)) = Fin 500 \<and> clientHeight (tallPage (Fin 2000)) = Fin 500
   \<and> width (makeFramePosition tallFrame) = Fin 500
   \<and> height (makeFramePosition tallFrame) = Fin 1750
   \<and> frameScale (tallPage (Fin 2000)) (makeFramePosition tallFrame) = Fin (48 / 175)
   \<and> \<not> js_gt (frameScale (tallPage (Fin 2000)) (makeFramePosition tallFrame)) (Fin 3)"
proof -
  have h: "clientWidth (tallPage (Fin 2000)) = Fin 500"
    "clientHeight (tallPage (Fin 2000)) = Fin 500"
    "width (makeFramePosition tallFrame) = Fin 500"
    "height (makeFramePosition tallFrame) = Fin 1750"
    by (simp_all add: tallPage_def tallFrame_def makeFramePosition_def)
  have nz: "(500::rat) \<noteq> 0" "(1750::rat) \<noteq> 0"
    by simp_all
  note t = scale_is_capped_minimum
    [of "tallPage (Fin 2000)" "makeFramePosition tallFrame" 500 500 500 1750]
  from t h nz have "frameScale (tallPage (Fin 2000)) (makeFramePosition tallFrame)
      = Fin (min 3 (min ((500 - 20) / 500) ((500 - 20) / 1750)))"
    by blast
  then have s: "frameScale (tallPage (Fin 2000)) (makeFramePosition tallFrame) = Fin (48 / 175)"
    by simp
  from t have "\<not> js_gt (frameScale (tallPage (Fin 2000)) (makeFramePosition tallFrame)) (Fin 3)"
    by blast
  with h s show ?thesis by blast
qed

text \<open>
  Claim C7. On each axis the centering offset is half of what the padded container has
  left over when the scaled frame is strictly smaller than it, and 0 otherwise; the
  returned \<^verbatim>\<open>left\<close> and \<^verbatim>\<open>top\<close> are that offset plus \<^verbatim>\<open>-(topLeft * scale)\<close> plus the
  padding of 10. A scaled frame that equals the padded container on an axis gets the
  offset 0 there; a frame of exactly the padded container's size is shown at scale 1
  with both offsets 0.
\<close>

theorem centering_offsets:
  "left (calcFramePositionAndSize this fp) =
     js_add (js_add (centering (js_sub (clientWidth this) (Fin 20))
                               (js_mul (width fp) (frameScale this fp)))
                    (js_neg (js_mul (x (topLeft fp)) (frameScale this fp)))) (Fin 10)
   \<and> top' (calcFramePositionAndSize this fp) =
     js_add (js_add (centering (js_sub (clientHeight this) (Fin 20))
                               (js_mul (height fp) (frameScale this fp)))
                    (js_neg (js_mul (y (topLeft fp)) (frameScale this fp)))) (Fin 10)
   \<and> centering avail scaled =
       (if js_lt scaled avail then js_div (js_sub avail scaled) (Fin 2) else Fin 0)
   \<and> (js_mul (width fp) (frameScale this fp) = js_sub (clientWidth this) (Fin 20) \<longrightarrow>
        centering (js_sub (clientWidth this) (Fin 20))
          (js_mul (width fp) (frameScale this fp)) = Fin 0)
   \<and> (js_mul (height fp) (frameScale this fp) = js_sub (clientHeight this) (Fin 20) \<longrightarrow>
        centering (js_sub (clientHeight this) (Fin 20))
          (js_mul (height fp) (frameScale this fp)) = Fin 0)
   \<and> (clientWidth this = Fin cw \<and> clientHeight this = Fin ch \<and> 20 < cw \<and> 20 < ch
        \<and> width fp = Fin (cw - 20) \<and> height fp = Fin (ch - 20)
        \<and> topLeft fp = \<lparr>x = Fin fx, y = Fin fy\<rparr> \<longrightarrow>
        frameScale this fp = Fin 1
        \<and> left (calcFramePositionAndSize this fp) = Fin (10 - fx)
        \<and> top' (calcFramePositionAndSize this fp) = Fin (10 - fy))"
proof (intro conjI impI)
  assume h: "clientWidth this = Fin cw \<and> clientHeight this = Fin ch \<and> 20 < cw \<and> 20 < ch
        \<and> width fp = Fin (cw - 20) \<and> height fp = Fin (ch - 20)
        \<and> topLeft fp = \<lparr>x = Fin fx, y = Fin fy\<rparr>"
  then show s: "frameScale this fp = Fin 1"
    by (simp add: frameScale_finite)
  from h show "left (calcFramePositionAndSize this fp) = Fin (10 - fx)"
    by (simp add: calc_left s) (simp add: centering_def number_defs)
  from h show "top' (calcFramePositionAndSize this fp) = Fin (10 - fy)"
    by (simp add: calc_top s) (simp add: centering_def number_defs)
qed (simp_all add: calc_left calc_top centering_same, simp add: centering_def)

theorem centering_offsets_witness:
  "clientWidth exactPage = Fin 520 \<and> clientHeight exactPage = Fin 520
   \<and> width (makeFramePosition exactFrame) = Fin (520 - 20)
   \<and> height (makeFramePosition exactFrame) = Fin (520 - 20)
   \<and> topLeft (makeFramePosition exactFrame) = \<lparr>x = Fin 30, y = Fin 40\<rparr>
   \<and> frameScale exactPage (makeFramePosition exactFrame) = Fin 1
   \<and> left (calcFramePositionAndSize exactPage (makeFramePosition exactFrame)) = Fin (10 - 30)
   \<and> top' (calcFramePositionAndSize exactPage (makeFramePosition exactFrame)) = Fin (10 - 40)"
proof -
  have h: "clientWidth exactPage = Fin 520" "clientHeight exactPage = Fin 520"
    "width (makeFramePosition exactFrame) = Fin (520 - 20)"
    "height (makeFramePosition exactFrame) = Fin (520 - 20)"
    "topLeft (makeFramePosition exactFrame) = \<lparr>x = Fin 30, y = Fin 40\<rparr>"
    by (simp_all add: exactPage_def exactFrame_def freshPage_def makeFramePosition_def)
  have lt: "(20::rat) < 520"
    by simp
  note t = centering_offsets
    [of exactPage "makeFramePosition exactFrame" "Fin 0" "Fin 0" 520 520 30 40]
  from t h lt show ?thesis by blast
qed

section \<open>Rendering\<close>

lemma render_set:
  assumes "p_currentFrame this = Some f" "\<not> is_nullish (p_duration this)"
  shows "renderCurrentComicFrame this =
    this\<lparr>anime := anime this @ [Remove, Animate (keyframes this f) easing]\<rparr>"
  using assms by (simp add: renderCurrentComicFrame_def)

lemma render_unset:
  assumes "p_currentFrame this = None \<or> is_nullish (p_duration this)"
  shows "renderCurrentComicFrame this = this"
  using assms by (auto simp add: renderCurrentComicFrame_def split: option.splits)

lemma render_fields:
  "p_currentFrame (renderCurrentComicFrame this) = p_currentFrame this"
  "p_duration (renderCurrentComicFrame this) = p_duration this"
  "p_areas (renderCurrentComicFrame this) = p_areas this"
  "p_canvasSize (renderCurrentComicFrame this) = p_canvasSize this"
  "clientWidth (renderCurrentComicFrame this) = clientWidth this"
  "clientHeight (renderCurrentComicFrame this) = clientHeight this"
  by (simp_all add: renderCurrentComicFrame_def split: option.splits)


lemma lastKeyframes_append: "lastKeyframes (this\<lparr>anime := cs @ [Remove, Animate kfs e]\<rparr>) = kfs"
  by (simp add: lastKeyframes_def)




text \<open>Whenever the two panning keyframes are built, the last one carries the caller's
  duration as it is: \<^verbatim>\<open>??\<close> yields its left operand, and nothing is subtracted.\<close>

lemma final_keyframe_duration:
  assumes "panFramePositions this f = Some pq" "p_duration this = Some d" "d \<noteq> Null"
  shows "map duration (keyframes this f) = [Fin 750, Fin 750, d]"
  using assms
  by (cases pq; cases d)
     (simp_all add: keyframes_def Let_def spread_def nullish_coalescing_def focusDuration_def)

text \<open>
  Claim C1. For the tall frame, which is panned, and the caller's durations 2000 and 1000,
  the last keyframe handed to the engine has the duration 2000 and 1000, where the
  duration less twice the focus duration is 500 and -500.
\<close>

theorem final_pan_duration_is_callers_duration:
  "map duration (lastKeyframes (renderCurrentComicFrame (tallPage (Fin 2000))))
     = [Fin 750, Fin 750, Fin 2000]
   \<and> js_sub (Fin 2000) (js_mul (Fin 2) focusDuration) = Fin 500
   \<and> map duration (lastKeyframes (renderCurrentComicFrame (tallPage (Fin 1000))))
     = [Fin 750, Fin 750, Fin 1000]
   \<and> js_sub (Fin 1000) (js_mul (Fin 2) focusDuration) = Fin (- 500)"
  by code_simp

text \<open>
  Claim C2, as stated, fails: a frame of 400 by 700 has the ratio 1.75, its height is
  the container's height 400 times 1.75, and it is not panned.
\<close>

theorem vertical_panning_double_boundary_counterexample:
  "js_div (height boundaryFrame) (width boundaryFrame) = panningFactor
   \<and> height boundaryFrame = js_mul (clientHeight boundaryPage) panningFactor
   \<and> \<not> shouldDoVerticalPanning boundaryPage (makeFramePosition boundaryFrame)"
  by (simp add: boundaryPage_def boundaryFrame_def freshPage_def shouldDoVerticalPanning_def
      makeFramePosition_def number_defs)

text \<open>
  Claim C2, amended. For a frame of finite height \<open>h\<close> and finite width \<open>w\<close> other than 0,
  in a container of finite height \<open>c\<close>, vertical panning is chosen exactly when
  \<open>h / w \<ge> 1.75\<close> and \<open>h > c * 1.75\<close>: the ratio bound is inclusive, the height bound is
  strict, so a height of exactly \<open>c * 1.75\<close> never pans.
\<close>

theorem vertical_panning_iff:
  assumes "width fp = Fin w" "height fp = Fin h" "clientHeight this = Fin c" "w \<noteq> 0"
  shows "shouldDoVerticalPanning this fp \<longleftrightarrow> (7 / 4 \<le> h / w \<and> c * (7 / 4) < h)"
  using assms by (auto simp add: shouldDoVerticalPanning_def number_defs)

theorem vertical_panning_iff_witness:
  "width (makeFramePosition boundaryFrame) = Fin 400
   \<and> height (makeFramePosition boundaryFrame) = Fin 700
   \<and> clientHeight lowPage = Fin 399 \<and> (400::rat) \<noteq> 0
   \<and> js_div (Fin 700) (Fin 400) = panningFactor
   \<and> shouldDoVerticalPanning lowPage (makeFramePosition boundaryFrame)"
proof -
  have h: "width (makeFramePosition boundaryFrame) = Fin 400"
    "height (makeFramePosition boundaryFrame) = Fin 700"
    "clientHeight lowPage = Fin 399" "(400::rat) \<noteq> 0"
    by (simp_all add: makeFramePosition_def boundaryFrame_def lowPage_def freshPage_def)
  have r: "js_div (Fin 700) (Fin 400) = panningFactor"
    by (simp add: number_defs)
  have "shouldDoVerticalPanning lowPage (makeFramePosition boundaryFrame)"
    using vertical_panning_iff [OF h] by simp
  with h r show ?thesis by blast
qed



section \<open>The registry and activation\<close>

lemma comicAreas_snd:
  "snd (comicAreas doc this) = this\<lparr>p_areas := Some (fst (comicAreas doc this))\<rparr>"
  by (simp add: comicAreas_def Let_def split: option.splits)

lemma comicAreas_again:
  "comicAreas doc' (snd (comicAreas doc this))
     = (fst (comicAreas doc this), snd (comicAreas doc this))"
  by (simp add: comicAreas_def Let_def split: option.splits)

lemma comicAreas_fst_cong:
  assumes "p_areas a = p_areas b" "p_canvasSize a = p_canvasSize b"
  shows "fst (comicAreas doc a) = fst (comicAreas doc b)"
  using assms by (simp add: comicAreas_def ensureComicFrame_def Let_def split: option.splits)

lemma SetCurrentFrame_found:
  assumes "fst (comicAreas doc this) (toLocaleLowerCase i) = Some f" "d \<noteq> Null"
  shows "SetCurrentFrame doc i d this =
     (let this' = this\<lparr>p_areas := Some (fst (comicAreas doc this)),
                       p_currentFrame := Some f, p_duration := Some d\<rparr>
      in this'\<lparr>anime := anime this @ [Remove, Animate (keyframes this' f) easing]\<rparr>)"
proof -
  obtain a s1 where c: "comicAreas doc this = (a, s1)"
    by (cases "comicAreas doc this")
  have c2: "comicAreas doc s1 = (a, s1)"
    using comicAreas_again [of doc doc this] c by simp
  have s1: "s1 = this\<lparr>p_areas := Some a\<rparr>"
    using comicAreas_snd [of doc this] c by simp
  show ?thesis
    using assms c c2
    by (simp add: SetCurrentFrame_def Let_def s1 render_set is_nullish_def)
qed

text \<open>The keyframes depend on the object only through the container's size, the canvas
  size and the stored duration.\<close>

lemma calc_cong:
  assumes "clientWidth a = clientWidth b" "clientHeight a = clientHeight b"
    "p_canvasSize a = p_canvasSize b"
  shows "calcFramePositionAndSize a fp = calcFramePositionAndSize b fp"
  using assms by (simp add: calcFramePositionAndSize_def frameScale_def)

lemma pan_cong:
  assumes "clientWidth a = clientWidth b" "clientHeight a = clientHeight b"
  shows "panFramePositions a f = panFramePositions b f"
  using assms
  by (simp add: panFramePositions_def shouldDoVerticalPanning_def shouldDoHorizontalPanning_def
      cong: if_cong)

lemma keyframes_cong:
  assumes "clientWidth a = clientWidth b" "clientHeight a = clientHeight b"
    "p_canvasSize a = p_canvasSize b" "p_duration a = p_duration b"
  shows "keyframes a f = keyframes b f"
proof -
  have "\<And>fp. calcFramePositionAndSize a fp = calcFramePositionAndSize b fp"
    using assms by (intro calc_cong) simp_all
  moreover have "panFramePositions a f = panFramePositions b f"
    using assms by (intro pan_cong) simp_all
  ultimately show ?thesis
    using assms(4) by (simp add: keyframes_def cong: option.case_cong)
qed

text \<open>After an activation, a resize to \<open>w\<close> by \<open>h\<close> starts the animation that the same
  activation would have started in a container of that size.\<close>

lemma resize_after_activation:
  assumes "fst (comicAreas doc this) (toLocaleLowerCase i) = Some f" "d \<noteq> Null"
  shows "lastKeyframes (onResize ((SetCurrentFrame doc i d this)\<lparr>clientWidth := w, clientHeight := h\<rparr>))
    = lastKeyframes (SetCurrentFrame doc i d (this\<lparr>clientWidth := w, clientHeight := h\<rparr>))"
proof -
  let ?r = "this\<lparr>clientWidth := w, clientHeight := h\<rparr>"
  have a: "fst (comicAreas doc ?r) = fst (comicAreas doc this)"
    by (intro comicAreas_fst_cong) simp_all
  then have fr: "fst (comicAreas doc ?r) (toLocaleLowerCase i) = Some f"
    using assms(1) by simp
  let ?s = "(SetCurrentFrame doc i d this)\<lparr>clientWidth := w, clientHeight := h\<rparr>"
  have st: "p_currentFrame ?s = Some f" "\<not> is_nullish (p_duration ?s)"
    using assms by (simp_all add: SetCurrentFrame_found Let_def is_nullish_def)
  have l: "lastKeyframes (onResize ?s) = keyframes ?s f"
    using st by (simp add: onResize_def render_set lastKeyframes_append)
  have r: "lastKeyframes (SetCurrentFrame doc i d ?r)
      = keyframes (?r\<lparr>p_areas := Some (fst (comicAreas doc ?r)),
                       p_currentFrame := Some f, p_duration := Some d\<rparr>) f"
    using fr assms(2) by (simp add: SetCurrentFrame_found Let_def lastKeyframes_append)
  have "keyframes ?s f = keyframes (?r\<lparr>p_areas := Some (fst (comicAreas doc ?r)),
                       p_currentFrame := Some f, p_duration := Some d\<rparr>) f"
    using assms by (intro keyframes_cong) (simp_all add: SetCurrentFrame_found Let_def)
  with l r show ?thesis by simp
qed

text \<open>
  Claim C9. The resize handler leaves the stored frame, the stored duration and the
  registry as they are; it takes no document and looks nothing up. With a frame and a
  duration stored, it removes the running animation and starts one whose keyframes are
  computed from that frame, that duration and the container as it now is: the position
  of the whole frame for 750 ms with opacity 1 and, where the frame is panned, the two
  pan positions, the last one for the stored duration. These are the keyframes that the
  activation itself would have built in a container of the new size. For the frame of
  500 by 1750 activated for 2000 ms in a container of 500 by 500, a resize that changes
  nothing repeats the three keyframes of the activation, and a resize to 520 by 3520
  gives the one keyframe of the whole frame at scale 1. With no frame stored, or no
  duration, the handler returns the object unchanged, and so starts nothing.
\<close>

theorem resize_rerenders_stored_frame:
  "p_currentFrame (onResize this) = p_currentFrame this
   \<and> p_duration (onResize this) = p_duration this
   \<and> p_areas (onResize this) = p_areas this
   \<and> (p_currentFrame this = Some f \<longrightarrow> \<not> is_nullish (p_duration this) \<longrightarrow>
        onResize this =
          this\<lparr>anime := anime this @ [Remove, Animate (keyframes this f) easing]\<rparr>)
   \<and> (p_currentFrame this = Some f \<longrightarrow> p_duration this = Some d \<longrightarrow> d \<noteq> Null \<longrightarrow>
        lastKeyframes (onResize this) =
          spread (calcFramePositionAndSize this (makeFramePosition f)) (Fin 750) (Some (Fin 1))
          # (case panFramePositions this f of
               None \<Rightarrow> []
             | Some (p, q) \<Rightarrow>
                 [spread (calcFramePositionAndSize this p) (Fin 750) None,
                  spread (calcFramePositionAndSize this q) d None]))
   \<and> (p_currentFrame this = None \<longrightarrow> onResize this = this)
   \<and> (is_nullish (p_duration this) \<longrightarrow> onResize this = this)
   \<and> (fst (comicAreas doc this) (toLocaleLowerCase i) = Some f \<longrightarrow> d \<noteq> Null \<longrightarrow>
        lastKeyframes
          (onResize ((SetCurrentFrame doc i d this)\<lparr>clientWidth := w, clientHeight := h\<rparr>))
        = lastKeyframes (SetCurrentFrame doc i d (this\<lparr>clientWidth := w, clientHeight := h\<rparr>)))
   \<and> anime activePage =
       [Remove, Animate
         [\<lparr>height = Fin (3840 / 7), width = Fin (1920 / 7), left = Fin (1270 / 7),
           top' = Fin 10, duration = Fin 750, opacity = Some (Fin 1)\<rparr>,
          \<lparr>height = Fin 1920, width = Fin 960, left = Fin 10,
           top' = Fin 10, duration = Fin 750, opacity = None\<rparr>,
          \<lparr>height = Fin 1920, width = Fin 960, left = Fin 10,
           top' = Fin (- (5998 / 5)), duration = Fin 2000, opacity = None\<rparr>]
         easing]
   \<and> p_currentFrame activePage = Some tallFrame
   \<and> p_duration activePage = Some (Fin 2000)
   \<and> anime (onResize activePage) =
       anime activePage @
       [Remove, Animate
         [\<lparr>height = Fin (3840 / 7), width = Fin (1920 / 7), left = Fin (1270 / 7),
           top' = Fin 10, duration = Fin 750, opacity = Some (Fin 1)\<rparr>,
          \<lparr>height = Fin 1920, width = Fin 960, left = Fin 10,
           top' = Fin 10, duration = Fin 750, opacity = None\<rparr>,
          \<lparr>height = Fin 1920, width = Fin 960, left = Fin 10,
           top' = Fin (- (5998 / 5)), duration = Fin 2000, opacity = None\<rparr>]
         easing]
   \<and> anime (onResize resizedPage) =
       anime activePage @
       [Remove, Animate
         [\<lparr>height = Fin 2000, width = Fin 1000, left = Fin 10,
           top' = Fin 885, duration = Fin 750, opacity = Some (Fin 1)\<rparr>]
         easing]"
proof (intro conjI impI)
  assume h: "p_currentFrame this = Some f" "p_duration this = Some d" "d \<noteq> Null"
  then have n: "\<not> is_nullish (p_duration this)"
    by (simp add: is_nullish_def)
  have "nullish_coalescing (Some d) (js_sub (Fin 0) (js_mul (Fin 2) focusDuration)) = d"
    using h(3) by (cases d) (simp_all add: nullish_coalescing_def)
  then have "keyframes this f =
      spread (calcFramePositionAndSize this (makeFramePosition f)) (Fin 750) (Some (Fin 1))
      # (case panFramePositions this f of
           None \<Rightarrow> []
         | Some (p, q) \<Rightarrow>
             [spread (calcFramePositionAndSize this p) (Fin 750) None,
              spread (calcFramePositionAndSize this q) d None])"
    using h(2) by (simp add: keyframes_def Let_def focusDuration_def split: option.splits)
  then show "lastKeyframes (onResize this) =
      spread (calcFramePositionAndSize this (makeFramePosition f)) (Fin 750) (Some (Fin 1))
      # (case panFramePositions this f of
           None \<Rightarrow> []
         | Some (p, q) \<Rightarrow>
             [spread (calcFramePositionAndSize this p) (Fin 750) None,
              spread (calcFramePositionAndSize this q) d None])"
    using h(1) n by (simp add: onResize_def render_set lastKeyframes_append)
next
  assume "fst (comicAreas doc this) (toLocaleLowerCase i) = Some f" "d \<noteq> Null"
  then show "lastKeyframes
          (onResize ((SetCurrentFrame doc i d this)\<lparr>clientWidth := w, clientHeight := h\<rparr>))
        = lastKeyframes (SetCurrentFrame doc i d (this\<lparr>clientWidth := w, clientHeight := h\<rparr>))"
    by (rule resize_after_activation)
next
  show "anime activePage =
       [Remove, Animate
         [\<lparr>height = Fin (3840 / 7), width = Fin (1920 / 7), left = Fin (1270 / 7),
           top' = Fin 10, duration = Fin 750, opacity = Some (Fin 1)\<rparr>,
          \<lparr>height = Fin 1920, width = Fin 960, left = Fin 10,
           top' = Fin 10, duration = Fin 750, opacity = None\<rparr>,
          \<lparr>height = Fin 1920, width = Fin 960, left = Fin 10,
           top' = Fin (- (5998 / 5)), duration = Fin 2000, opacity = None\<rparr>]
         easing]"
    by code_simp
  show "p_currentFrame activePage = Some tallFrame"
    by code_simp
  show "p_duration activePage = Some (Fin 2000)"
    by code_simp
  show "anime (onResize activePage) =
       anime activePage @
       [Remove, Animate
         [\<lparr>height = Fin (3840 / 7), width = Fin (1920 / 7), left = Fin (1270 / 7),
           top' = Fin 10, duration = Fin 750, opacity = Some (Fin 1)\<rparr>,
          \<lparr>height = Fin 1920, width = Fin 960, left = Fin 10,
           top' = Fin 10, duration = Fin 750, opacity = None\<rparr>,
          \<lparr>height = Fin 1920, width = Fin 960, left = Fin 10,
           top' = Fin (- (5998 / 5)), duration = Fin 2000, opacity = None\<rparr>]
         easing]"
    by code_simp
  show "anime (onResize resizedPage) =
       anime activePage @
       [Remove, Animate
         [\<lparr>height = Fin 2000, width = Fin 1000, left = Fin 10,
           top' = Fin 885, duration = Fin 750, opacity = Some (Fin 1)\<rparr>]
         easing]"
    by code_simp
qed (simp_all add: onResize_def render_fields render_set render_unset)

theorem resize_rerenders_stored_frame_witness:
  "p_currentFrame (tallPage (Fin 2000)) = Some tallFrame
   \<and> p_duration (tallPage (Fin 2000)) = Some (Fin 2000)
   \<and> Fin 2000 \<noteq> Null
   \<and> lastKeyframes (onResize (tallPage (Fin 2000))) =
         [\<lparr>height = Fin (3840 / 7), width = Fin (1920 / 7), left = Fin (1270 / 7),
           top' = Fin 10, duration = Fin 750, opacity = Some (Fin 1)\<rparr>,
          \<lparr>height = Fin 1920, width = Fin 960, left = Fin 10,
           top' = Fin 10, duration = Fin 750, opacity = None\<rparr>,
          \<lparr>height = Fin 1920, width = Fin 960, left = Fin 10,
           top' = Fin (- (5998 / 5)), duration = Fin 2000, opacity = None\<rparr>]
   \<and> p_currentFrame freshPage = None
   \<and> onResize freshPage = freshPage"
proof -
  have h: "p_currentFrame (tallPage (Fin 2000)) = Some tallFrame"
    "p_duration (tallPage (Fin 2000)) = Some (Fin 2000)" "Fin 2000 \<noteq> Null"
    by (simp_all add: tallPage_def)
  have n: "p_currentFrame freshPage = None"
    by (simp add: freshPage_def)
  note t = resize_rerenders_stored_frame
    [of "tallPage (Fin 2000)" tallFrame "Fin 2000" lowerDoc "''#frame1''" "Fin 500" "Fin 500"]
  note u = resize_rerenders_stored_frame
    [of freshPage tallFrame "Fin 2000" lowerDoc "''#frame1''" "Fin 500" "Fin 500"]
  from t h have "lastKeyframes (onResize (tallPage (Fin 2000))) =
      spread (calcFramePositionAndSize (tallPage (Fin 2000)) (makeFramePosition tallFrame))
        (Fin 750) (Some (Fin 1))
      # (case panFramePositions (tallPage (Fin 2000)) tallFrame of
           None \<Rightarrow> []
         | Some (p, q) \<Rightarrow>
             [spread (calcFramePositionAndSize (tallPage (Fin 2000)) p) (Fin 750) None,
              spread (calcFramePositionAndSize (tallPage (Fin 2000)) q) (Fin 2000) None])"
    by blast
  also have "\<dots> =
         [\<lparr>height = Fin (3840 / 7), width = Fin (1920 / 7), left = Fin (1270 / 7),
           top' = Fin 10, duration = Fin 750, opacity = Some (Fin 1)\<rparr>,
          \<lparr>height = Fin 1920, width = Fin 960, left = Fin 10,
           top' = Fin 10, duration = Fin 750, opacity = None\<rparr>,
          \<lparr>height = Fin 1920, width = Fin 960, left = Fin 10,
           top' = Fin (- (5998 / 5)), duration = Fin 2000, opacity = None\<rparr>]"
    by code_simp
  finally have k: "lastKeyframes (onResize (tallPage (Fin 2000))) =
         [\<lparr>height = Fin (3840 / 7), width = Fin (1920 / 7), left = Fin (1270 / 7),
           top' = Fin 10, duration = Fin 750, opacity = Some (Fin 1)\<rparr>,
          \<lparr>height = Fin 1920, width = Fin 960, left = Fin 10,
           top' = Fin 10, duration = Fin 750, opacity = None\<rparr>,
          \<lparr>height = Fin 1920, width = Fin 960, left = Fin 10,
           top' = Fin (- (5998 / 5)), duration = Fin 2000, opacity = None\<rparr>]" .
  from u n have "onResize freshPage = freshPage"
    by blast
  with h n k show ?thesis by blast
qed

text \<open>
  Claim C3. In a document whose frame element has the id \<^verbatim>\<open>Frame1\<close>, the registry holds
  the frame under \<^verbatim>\<open>Frame1\<close> and \<^verbatim>\<open>#Frame1\<close> and holds nothing under the lowercased keys
  \<^verbatim>\<open>frame1\<close> and \<^verbatim>\<open>#frame1\<close>; \<^verbatim>\<open>SetCurrentFrame\<close> stores no frame and starts no animation
  for \<^verbatim>\<open>Frame1\<close>, \<^verbatim>\<open>frame1\<close> or \<^verbatim>\<open>#Frame1\<close>. With the id \<^verbatim>\<open>frame1\<close> in the document, the
  call for \<^verbatim>\<open>Frame1\<close> stores the frame.
\<close>

theorem uppercase_id_is_never_found:
  "fst (comicAreas upperDoc freshPage) ''Frame1'' = Some tallFrame
   \<and> fst (comicAreas upperDoc freshPage) ''#Frame1'' = Some tallFrame
   \<and> fst (comicAreas upperDoc freshPage) (toLocaleLowerCase ''Frame1'') = None
   \<and> fst (comicAreas upperDoc freshPage) (toLocaleLowerCase ''#Frame1'') = None
   \<and> p_currentFrame (SetCurrentFrame upperDoc ''Frame1'' (Fin 2000) freshPage) = None
   \<and> anime (SetCurrentFrame upperDoc ''Frame1'' (Fin 2000) freshPage) = []
   \<and> p_currentFrame (SetCurrentFrame upperDoc ''frame1'' (Fin 2000) freshPage) = None
   \<and> p_currentFrame (SetCurrentFrame upperDoc ''#Frame1'' (Fin 2000) freshPage) = None
   \<and> p_currentFrame (SetCurrentFrame lowerDoc ''Frame1'' (Fin 2000) freshPage) = Some tallFrame"
  by code_simp

text \<open>
  Claim C6. When the lowercased id is not a key of the registry, \<^verbatim>\<open>SetCurrentFrame\<close>
  returns the object as it was but for the registry, which the lookup has filled: the
  stored frame and duration are unchanged and no call reaches the tween engine. The
  function has no branch that raises.
\<close>

theorem unknown_id_is_noop:
  assumes "fst (comicAreas doc this) (toLocaleLowerCase i) = None"
  shows "SetCurrentFrame doc i d this = this\<lparr>p_areas := Some (fst (comicAreas doc this))\<rparr>
    \<and> p_currentFrame (SetCurrentFrame doc i d this) = p_currentFrame this
    \<and> p_duration (SetCurrentFrame doc i d this) = p_duration this
    \<and> anime (SetCurrentFrame doc i d this) = anime this"
proof -
  obtain a s1 where c: "comicAreas doc this = (a, s1)"
    by (cases "comicAreas doc this")
  have "SetCurrentFrame doc i d this = snd (comicAreas doc this)"
    using assms c by (simp add: SetCurrentFrame_def)
  then have "SetCurrentFrame doc i d this = this\<lparr>p_areas := Some (fst (comicAreas doc this))\<rparr>"
    using comicAreas_snd by simp
  then show ?thesis by simp
qed

theorem unknown_id_is_noop_witness:
  "fst (comicAreas lowerDoc activePage) (toLocaleLowerCase ''Frame2'') = None
   \<and> p_currentFrame (SetCurrentFrame lowerDoc ''Frame2'' (Fin 500) activePage) = Some tallFrame
   \<and> p_duration (SetCurrentFrame lowerDoc ''Frame2'' (Fin 500) activePage) = Some (Fin 2000)
   \<and> anime (SetCurrentFrame lowerDoc ''Frame2'' (Fin 500) activePage) = anime activePage"
proof -
  have h: "fst (comicAreas lowerDoc activePage) (toLocaleLowerCase ''Frame2'') = None"
    by code_simp
  have s: "p_currentFrame activePage = Some tallFrame" "p_duration activePage = Some (Fin 2000)"
    by code_simp+
  from unknown_id_is_noop [OF h, of "Fin 500"] h s show ?thesis by simp
qed

section \<open>Extraction and its cache\<close>

lemma JSON_roundtrip_Fin:
  "JSON_parse (JSON_stringify \<lparr>height = Fin a, width = Fin b\<rparr>) = \<lparr>height = Fin a, width = Fin b\<rparr>"
  by (simp add: JSON_parse_def JSON_stringify_def)

text \<open>Without a cache attribute the extraction writes one: the pair it returns, serialized.\<close>

lemma extract_uncached:
  assumes "dataset_CanvasSize img = None"
  shows "extractCanvasSize img =
     (fst (extractCanvasSize img),
      img\<lparr>dataset_CanvasSize := Some (JSON_stringify (fst (extractCanvasSize img)))\<rparr>)"
  using assms by (simp add: extractCanvasSize_def Let_def)

lemma extract_cached:
  assumes "dataset_CanvasSize img = Some j"
  shows "extractCanvasSize img = (JSON_parse j, img)"
  using assms by (simp add: extractCanvasSize_def)

lemma extract_second:
  "\<exists>j. dataset_CanvasSize (snd (extractCanvasSize img)) = Some j"
proof (cases "dataset_CanvasSize img")
  case None
  have "snd (extractCanvasSize img)
      = img\<lparr>dataset_CanvasSize := Some (JSON_stringify (fst (extractCanvasSize img)))\<rparr>"
    using extract_uncached [OF None] by (metis snd_conv)
  then show ?thesis by simp
next
  case (Some j)
  then show ?thesis by (simp add: extract_cached)
qed

lemma extract_twice_finite:
  assumes "height (fst (extractCanvasSize img)) = Fin a"
    and "width (fst (extractCanvasSize img)) = Fin b"
  shows "fst (extractCanvasSize (snd (extractCanvasSize img))) = fst (extractCanvasSize img)"
proof (cases "dataset_CanvasSize img")
  case None
  have c: "fst (extractCanvasSize img) = \<lparr>height = Fin a, width = Fin b\<rparr>"
    using assms by (cases "fst (extractCanvasSize img)") simp
  have "snd (extractCanvasSize img)
      = img\<lparr>dataset_CanvasSize := Some (JSON_stringify (fst (extractCanvasSize img)))\<rparr>"
    using extract_uncached [OF None] by (metis snd_conv)
  then have "fst (extractCanvasSize (snd (extractCanvasSize img)))
      = JSON_parse (JSON_stringify (fst (extractCanvasSize img)))"
    by (simp add: extract_cached)
  then show ?thesis
    by (simp add: c JSON_roundtrip_Fin)
next
  case (Some j)
  then show ?thesis by (simp add: extract_cached)
qed

lemma extract_second_keeps_image:
  "snd (extractCanvasSize (snd (extractCanvasSize img))) = snd (extractCanvasSize img)"
proof -
  from extract_second obtain j where "dataset_CanvasSize (snd (extractCanvasSize img)) = Some j"
    by blast
  then show ?thesis by (simp add: extract_cached)
qed

lemma extract_second_ignores_style:
  "fst (extractCanvasSize ((snd (extractCanvasSize img))\<lparr>style := st\<rparr>))
     = fst (extractCanvasSize (snd (extractCanvasSize img)))"
proof -
  from extract_second obtain j where "dataset_CanvasSize (snd (extractCanvasSize img)) = Some j"
    by blast
  then show ?thesis by (simp add: extract_cached)
qed

text \<open>
  Claim C8. A second read of \<^verbatim>\<open>comicAreas\<close> returns the registry of the first and leaves
  the object as the first left it, whatever the document has become. The first
  \<^verbatim>\<open>extractCanvasSize\<close> on an image without a cache attribute writes the serialized pair
  into that attribute; a second one reads the attribute only, whatever the style has
  become, and writes nothing. For an image whose sizes are numbers, as the document
  contract has it, so that the first extraction returns a finite width and a finite
  height, the second extraction returns the identical pair.
\<close>

theorem extraction_is_cached:
  "comicAreas doc' (snd (comicAreas doc this))
     = (fst (comicAreas doc this), snd (comicAreas doc this))
   \<and> (dataset_CanvasSize img = None \<longrightarrow>
        dataset_CanvasSize (snd (extractCanvasSize img))
          = Some (JSON_stringify (fst (extractCanvasSize img))))
   \<and> snd (extractCanvasSize (snd (extractCanvasSize img))) = snd (extractCanvasSize img)
   \<and> fst (extractCanvasSize ((snd (extractCanvasSize img))\<lparr>style := st\<rparr>))
       = fst (extractCanvasSize (snd (extractCanvasSize img)))
   \<and> (height (fst (extractCanvasSize img)) = Fin a \<longrightarrow>
      width (fst (extractCanvasSize img)) = Fin b \<longrightarrow>
        fst (extractCanvasSize (snd (extractCanvasSize img))) = fst (extractCanvasSize img)
        \<and> fst (extractCanvasSize (snd (extractCanvasSize img)))
            = \<lparr>height = Fin a, width = Fin b\<rparr>)"
proof (intro conjI impI)
  assume n: "dataset_CanvasSize img = None"
  have "snd (extractCanvasSize img)
      = img\<lparr>dataset_CanvasSize := Some (JSON_stringify (fst (extractCanvasSize img)))\<rparr>"
    using extract_uncached [OF n] by (metis snd_conv)
  then show "dataset_CanvasSize (snd (extractCanvasSize img))
          = Some (JSON_stringify (fst (extractCanvasSize img)))"
    by simp
next
  assume f: "height (fst (extractCanvasSize img)) = Fin a"
    "width (fst (extractCanvasSize img)) = Fin b"
  then show e: "fst (extractCanvasSize (snd (extractCanvasSize img))) = fst (extractCanvasSize img)"
    by (rule extract_twice_finite)
  have "fst (extractCanvasSize img) = \<lparr>height = Fin a, width = Fin b\<rparr>"
    using f by (cases "fst (extractCanvasSize img)") simp
  with e show "fst (extractCanvasSize (snd (extractCanvasSize img)))
            = \<lparr>height = Fin a, width = Fin b\<rparr>"
    by simp
qed (simp_all add: comicAreas_again extract_second_keeps_image extract_second_ignores_style)

theorem extraction_is_cached_witness:
  "dataset_CanvasSize pageImg = None
   \<and> height (fst (extractCanvasSize pageImg)) = Fin 2000
   \<and> width (fst (extractCanvasSize pageImg)) = Fin 1000
   \<and> dataset_CanvasSize (snd (extractCanvasSize pageImg))
       = Some \<lparr>json_height = JNumber 2000, json_width = JNumber 1000\<rparr>
   \<and> fst (extractCanvasSize (snd (extractCanvasSize pageImg)))
       = \<lparr>height = Fin 2000, width = Fin 1000\<rparr>"
proof -
  have n: "dataset_CanvasSize pageImg = None"
    by (simp add: pageImg_def)
  have e: "fst (extractCanvasSize pageImg) = \<lparr>height = Fin 2000, width = Fin 1000\<rparr>"
    by code_simp
  then have h: "height (fst (extractCanvasSize pageImg)) = Fin 2000"
    "width (fst (extractCanvasSize pageImg)) = Fin 1000"
    by simp_all
  note t = extraction_is_cached [of lowerDoc lowerDoc freshPage pageImg "[]" 2000 1000]
  from t n have "dataset_CanvasSize (snd (extractCanvasSize pageImg))
      = Some (JSON_stringify (fst (extractCanvasSize pageImg)))"
    by blast
  then have d: "dataset_CanvasSize (snd (extractCanvasSize pageImg))
       = Some \<lparr>json_height = JNumber 2000, json_width = JNumber 1000\<rparr>"
    by (simp add: e JSON_stringify_def)
  from t h have "fst (extractCanvasSize (snd (extractCanvasSize pageImg)))
       = \<lparr>height = Fin 2000, width = Fin 1000\<rparr>"
    by blast
  with n h d show ?thesis by blast
qed

text \<open>The conversion of \<^verbatim>\<open>parseInt\<close> at its edges: the first integer that is not a double
  goes to the even neighbour, and 310 digits overflow.\<close>

lemma parseInt_rounds:
  "parseInt ''9007199254740993px'' = Fin 9007199254740992
   \<and> parseInt ''-9007199254740995'' = Fin (- 9007199254740996)
   \<and> parseInt (replicate 310 (CHR ''9'')) = PosInf
   \<and> parseInt ''  +12.5px'' = Fin 12
   \<and> parseInt ''auto'' = NaN"
  by code_simp

end
